theory Spec2Isabelle
  imports Main "HOL-Library.Sublist"
begin

section \<open>Python values used by the service\<close>

text \<open>
  A Python \<open>str\<close> is modelled as a \<open>string\<close> (a list of 8-bit characters).
  Characters below 128 are the ASCII characters; a character from 128 up stands for
  (a byte of the UTF-8 encoding of) a non-ASCII code point.  All patterns and literals
  of the service are ASCII, and \<open>preprocess_ocr_text\<close> deletes every non-ASCII character
  before any field pattern is applied, so the field extractor only ever sees characters
  below 128.
\<close>

definition code :: "char \<Rightarrow> nat" where
  "code c = of_char c"

text \<open>The order of the characters is the order of their codes; \<open>between lo hi c\<close> says that
  \<open>c\<close> lies in the range \<open>lo-hi\<close>.\<close>

definition char_le :: "char \<Rightarrow> char \<Rightarrow> bool" where
  "char_le a b = (code a \<le> code b)"

definition between :: "char \<Rightarrow> char \<Rightarrow> char \<Rightarrow> bool" where
  "between lo hi c = (char_le lo c \<and> char_le c hi)"

text \<open>\<open>str.isspace\<close> on one ASCII character: TAB, LF, VT, FF, CR, FS, GS, RS, US, space.
  It is also what \<open>\s\<close> matches in a \<open>str\<close> pattern.\<close>

definition is_space :: "char \<Rightarrow> bool" where
  "is_space c = (between (CHR 0x09) (CHR 0x0D) c \<or> between (CHR 0x1C) (CHR 0x20) c)"

text \<open>What \<open>\d\<close> and \<open>[0-9]\<close> match on ASCII text.\<close>

definition is_digit :: "char \<Rightarrow> bool" where
  "is_digit c = between (CHR ''0'') (CHR ''9'') c"

definition is_ascii :: "char \<Rightarrow> bool" where
  "is_ascii c = between (CHR 0x00) (CHR 0x7F) c"

definition chr_lower :: "char \<Rightarrow> char" where
  "chr_lower c = (if between (CHR ''A'') (CHR ''Z'') c then char_of (code c + 32) else c)"

definition chr_upper :: "char \<Rightarrow> char" where
  "chr_upper c = (if between (CHR ''a'') (CHR ''z'') c then char_of (code c - 32) else c)"

text \<open>The comparison of two characters bit by bit, and the change of case as a change of
  one bit: the equations by which these functions are evaluated.\<close>

lemma bit_step:
  fixes x y m :: nat
  assumes "x < m" "y < m"
  shows "(x + m * of_bool a \<le> y + m * of_bool b) = (if a = b then x \<le> y else b)"
  using assms by (cases a; cases b) auto

lemma code_Char:
  "code (Char b0 b1 b2 b3 b4 b5 b6 b7) =
     of_bool b0 + 2 * of_bool b1 + 4 * of_bool b2 + 8 * of_bool b3 + 16 * of_bool b4
     + 32 * of_bool b5 + 64 * of_bool b6 + 128 * of_bool b7"
  by (simp add: code_def)

lemma char_le_code [code]:
  "char_le (Char a0 a1 a2 a3 a4 a5 a6 a7) (Char b0 b1 b2 b3 b4 b5 b6 b7) =
     (if a7 \<noteq> b7 then b7 else if a6 \<noteq> b6 then b6 else if a5 \<noteq> b5 then b5
      else if a4 \<noteq> b4 then b4 else if a3 \<noteq> b3 then b3 else if a2 \<noteq> b2 then b2
      else if a1 \<noteq> b1 then b1 else if a0 \<noteq> b0 then b0 else True)"
proof -
  define x7 :: nat where "x7 = of_bool a0 + 2 * of_bool a1 + 4 * of_bool a2 + 8 * of_bool a3 + 16 * of_bool a4 + 32 * of_bool a5 + 64 * of_bool a6"
  define y7 :: nat where "y7 = of_bool b0 + 2 * of_bool b1 + 4 * of_bool b2 + 8 * of_bool b3 + 16 * of_bool b4 + 32 * of_bool b5 + 64 * of_bool b6"
  define x6 :: nat where "x6 = of_bool a0 + 2 * of_bool a1 + 4 * of_bool a2 + 8 * of_bool a3 + 16 * of_bool a4 + 32 * of_bool a5"
  define y6 :: nat where "y6 = of_bool b0 + 2 * of_bool b1 + 4 * of_bool b2 + 8 * of_bool b3 + 16 * of_bool b4 + 32 * of_bool b5"
  define x5 :: nat where "x5 = of_bool a0 + 2 * of_bool a1 + 4 * of_bool a2 + 8 * of_bool a3 + 16 * of_bool a4"
  define y5 :: nat where "y5 = of_bool b0 + 2 * of_bool b1 + 4 * of_bool b2 + 8 * of_bool b3 + 16 * of_bool b4"
  define x4 :: nat where "x4 = of_bool a0 + 2 * of_bool a1 + 4 * of_bool a2 + 8 * of_bool a3"
  define y4 :: nat where "y4 = of_bool b0 + 2 * of_bool b1 + 4 * of_bool b2 + 8 * of_bool b3"
  define x3 :: nat where "x3 = of_bool a0 + 2 * of_bool a1 + 4 * of_bool a2"
  define y3 :: nat where "y3 = of_bool b0 + 2 * of_bool b1 + 4 * of_bool b2"
  define x2 :: nat where "x2 = of_bool a0 + 2 * of_bool a1"
  define y2 :: nat where "y2 = of_bool b0 + 2 * of_bool b1"
  define x1 :: nat where "x1 = of_bool a0"
  define y1 :: nat where "y1 = of_bool b0"
  have b1: "x1 < 2" "y1 < 2" by (simp_all add: x1_def y1_def)
  have b2: "x2 < 4" "y2 < 4" by (simp_all add: x2_def y2_def of_bool_def)
  have b3: "x3 < 8" "y3 < 8" by (simp_all add: x3_def y3_def of_bool_def)
  have b4: "x4 < 16" "y4 < 16" by (simp_all add: x4_def y4_def of_bool_def)
  have b5: "x5 < 32" "y5 < 32" by (simp_all add: x5_def y5_def of_bool_def)
  have b6: "x6 < 64" "y6 < 64" by (simp_all add: x6_def y6_def of_bool_def)
  have b7: "x7 < 128" "y7 < 128" by (simp_all add: x7_def y7_def of_bool_def)
  have s1: "(x1 \<le> y1) = (if a0 \<noteq> b0 then b0 else True)"
    by (cases a0; cases b0) (simp_all add: x1_def y1_def)
  have s2: "(x2 \<le> y2) = (if a1 \<noteq> b1 then b1 else x1 \<le> y1)"
    using bit_step [OF b1, of a1 b1] by (simp add: x2_def y2_def x1_def y1_def)
  have s3: "(x3 \<le> y3) = (if a2 \<noteq> b2 then b2 else x2 \<le> y2)"
    using bit_step [OF b2, of a2 b2] by (simp add: x3_def y3_def x2_def y2_def)
  have s4: "(x4 \<le> y4) = (if a3 \<noteq> b3 then b3 else x3 \<le> y3)"
    using bit_step [OF b3, of a3 b3] by (simp add: x4_def y4_def x3_def y3_def)
  have s5: "(x5 \<le> y5) = (if a4 \<noteq> b4 then b4 else x4 \<le> y4)"
    using bit_step [OF b4, of a4 b4] by (simp add: x5_def y5_def x4_def y4_def)
  have s6: "(x6 \<le> y6) = (if a5 \<noteq> b5 then b5 else x5 \<le> y5)"
    using bit_step [OF b5, of a5 b5] by (simp add: x6_def y6_def x5_def y5_def)
  have s7: "(x7 \<le> y7) = (if a6 \<noteq> b6 then b6 else x6 \<le> y6)"
    using bit_step [OF b6, of a6 b6] by (simp add: x7_def y7_def x6_def y6_def)
  have s8: "char_le (Char a0 a1 a2 a3 a4 a5 a6 a7) (Char b0 b1 b2 b3 b4 b5 b6 b7)
            = (if a7 \<noteq> b7 then b7 else x7 \<le> y7)"
    using bit_step [OF b7, of a7 b7] by (simp add: char_le_def code_Char x7_def y7_def)
  show ?thesis
    by (simp only: s8 s7 s6 s5 s4 s3 s2 s1)
qed

lemma chr_lower_code [code]:
  "chr_lower c = (if between (CHR ''A'') (CHR ''Z'') c
     then Char (digit0 c) (digit1 c) (digit2 c) (digit3 c) (digit4 c) True (digit6 c) (digit7 c)
     else c)"
proof (cases c)
  case (Char b0 b1 b2 b3 b4 b5 b6 b7)
  show ?thesis unfolding Char
    by (cases b0; cases b1; cases b2; cases b3; cases b4; cases b5; cases b6; cases b7)
       (simp_all add: chr_lower_def between_def char_le_def code_def char_of_def bit_iff_odd)
qed

lemma chr_upper_code [code]:
  "chr_upper c = (if between (CHR ''a'') (CHR ''z'') c
     then Char (digit0 c) (digit1 c) (digit2 c) (digit3 c) (digit4 c) False (digit6 c) (digit7 c)
     else c)"
proof (cases c)
  case (Char b0 b1 b2 b3 b4 b5 b6 b7)
  show ?thesis unfolding Char
    by (cases b0; cases b1; cases b2; cases b3; cases b4; cases b5; cases b6; cases b7)
       (simp_all add: chr_upper_def between_def char_le_def code_def char_of_def bit_iff_odd)
qed

text \<open>\<open>str.lower\<close>, \<open>str.upper\<close>: the ASCII letters change case, every other
  character of the model is kept.\<close>

definition str_lower :: "string \<Rightarrow> string" where
  "str_lower s = map chr_lower s"

definition str_upper :: "string \<Rightarrow> string" where
  "str_upper s = map chr_upper s"

text \<open>\<open>s.endswith(suffix)\<close> and \<open>s.endswith((a, b, ...))\<close>.\<close>

definition str_endswith :: "string \<Rightarrow> string \<Rightarrow> bool" where
  "str_endswith s suf = (length suf \<le> length s \<and> drop (length s - length suf) s = suf)"

definition str_endswith_any :: "string \<Rightarrow> string list \<Rightarrow> bool" where
  "str_endswith_any s sufs = list_ex (str_endswith s) sufs"

text \<open>\<open>s.strip()\<close>: leading and trailing whitespace removed.\<close>

definition str_strip :: "string \<Rightarrow> string" where
  "str_strip s = rev (dropWhile is_space (rev (dropWhile is_space s)))"

text \<open>\<open>s.zfill(width)\<close>: zeros are inserted on the left, after a leading sign.\<close>

definition str_zfill :: "nat \<Rightarrow> string \<Rightarrow> string" where
  "str_zfill width s =
     (case s of
        [] \<Rightarrow> replicate width (CHR ''0'')
      | c # t \<Rightarrow>
          if c = CHR ''+'' \<or> c = CHR ''-''
          then c # replicate (width - length s) (CHR ''0'') @ t
          else replicate (width - length s) (CHR ''0'') @ s)"

text \<open>The slice \<open>s[a:b]\<close> for indices \<open>0 \<le> a, b \<le> len(s)\<close> (empty when \<open>b \<le> a\<close>),
  and \<open>s[a:]\<close>.\<close>

definition slice :: "string \<Rightarrow> nat \<Rightarrow> nat \<Rightarrow> string" where
  "slice s a b = take (b - a) (drop a s)"

definition slice_from :: "string \<Rightarrow> nat \<Rightarrow> string" where
  "slice_from s a = drop a s"

text \<open>\<open>s.replace(old, new)\<close>: the occurrences of \<open>old\<close> are found from the left and do
  not overlap.  With an empty \<open>old\<close> Python inserts \<open>new\<close> before every character and at
  the end.\<close>

function str_replace :: "string \<Rightarrow> string \<Rightarrow> string \<Rightarrow> string" where
  "str_replace old new [] = (if old = [] then new else [])"
| "str_replace old new (c # s) =
     (if old = [] then new @ c # str_replace old new s
      else if prefix old (c # s) then new @ str_replace old new (drop (length old) (c # s))
      else c # str_replace old new s)"
  by pat_completeness auto
termination
  by (relation "measure (\<lambda>(old, new, s). length s)") auto

text \<open>Truthiness of an optional string: \<open>None\<close> and \<open>''\<close> are false.\<close>

definition truthy :: "string option \<Rightarrow> bool" where
  "truthy v = (case v of None \<Rightarrow> False | Some s \<Rightarrow> s \<noteq> [])"

text \<open>Decimal digits of a natural number, as an f-string prints it.\<close>

fun str_of_nat :: "nat \<Rightarrow> string" where
  "str_of_nat n =
     (if n < 10 then [char_of (48 + n)]
      else str_of_nat (n div 10) @ [char_of (48 + n mod 10)])"

declare str_of_nat.simps [simp del]

subsection \<open>Dictionaries of optional strings\<close>

text \<open>The field dictionaries map a key to a string or to \<open>None\<close>; a key may also be missing.
  \<open>d.get(k)\<close> is \<open>None\<close> in both cases.\<close>

type_synonym py_dict = "string \<rightharpoonup> string option"

definition dict_get :: "py_dict \<Rightarrow> string \<Rightarrow> string option" where
  "dict_get d k = (case d k of None \<Rightarrow> None | Some v \<Rightarrow> v)"

section \<open>Regular expressions as the service uses them\<close>

text \<open>
  The patterns of the service are built from literals, character sets, greedy repetition
  of one character set, alternation, concatenation and capture groups.  The matcher
  below lists every way a pattern matches at the start of a string, in the order in
  which Python's backtracking matcher tries them (a greedy repetition tries the longest
  run first, an alternation its left branch first); the match Python reports is the
  first of the list.  The flag is \<open>re.IGNORECASE\<close>.
\<close>

datatype citem = Ch char | Rng char char | Cat_space | Cat_digit

datatype cset = In "citem list" | NotIn "citem list"

datatype regex =
    Lit string
  | Rep cset nat "nat option"
  | Seq regex regex
  | Alt regex regex
  | Grp regex

abbreviation Star :: "cset \<Rightarrow> regex" where
  "Star cs \<equiv> Rep cs 0 None"

abbreviation Plus :: "cset \<Rightarrow> regex" where
  "Plus cs \<equiv> Rep cs 1 None"

abbreviation One :: "cset \<Rightarrow> regex" where
  "One cs \<equiv> Rep cs 1 (Some 1)"

fun seqs :: "regex list \<Rightarrow> regex" where
  "seqs [] = Lit []"
| "seqs [r] = r"
| "seqs (r # rs) = Seq r (seqs rs)"

fun citem_match :: "bool \<Rightarrow> citem \<Rightarrow> char \<Rightarrow> bool" where
  "citem_match ic (Ch x) c = (if ic then chr_lower c = chr_lower x else c = x)"
| "citem_match ic (Rng a b) c =
     (if ic then between a b (chr_lower c) \<or> between a b (chr_upper c)
      else between a b c)"
| "citem_match ic Cat_space c = is_space c"
| "citem_match ic Cat_digit c = is_digit c"

fun cset_match :: "bool \<Rightarrow> cset \<Rightarrow> char \<Rightarrow> bool" where
  "cset_match ic (In items) c = list_ex (\<lambda>i. citem_match ic i c) items"
| "cset_match ic (NotIn items) c = (\<not> list_ex (\<lambda>i. citem_match ic i c) items)"

fun lit_match :: "bool \<Rightarrow> string \<Rightarrow> string \<Rightarrow> bool" where
  "lit_match ic [] s = True"
| "lit_match ic (p # ps) [] = False"
| "lit_match ic (p # ps) (c # s) =
     ((if ic then chr_lower c = chr_lower p else c = p) \<and> lit_match ic ps s)"

text \<open>Greedy repetition of a character set between \<open>lo\<close> and \<open>hi\<close> times: the remainders
  of the string after each admissible run, the longest run first.\<close>

fun rep_matches :: "bool \<Rightarrow> cset \<Rightarrow> nat \<Rightarrow> nat option \<Rightarrow> string \<Rightarrow> string list" where
  "rep_matches ic cs lo hi [] = (if lo = 0 then [[]] else [])"
| "rep_matches ic cs lo hi (c # s) =
     (if cset_match ic cs c \<and> hi \<noteq> Some 0
      then rep_matches ic cs (lo - 1) (map_option (\<lambda>h. h - 1) hi) s
           @ (if lo = 0 then [c # s] else [])
      else (if lo = 0 then [c # s] else []))"

text \<open>A match at the start of \<open>s\<close> is the list of its groups' texts (in the order of
  their opening parentheses) and the rest of \<open>s\<close> after the match.\<close>

fun re_matches :: "bool \<Rightarrow> regex \<Rightarrow> string \<Rightarrow> (string list \<times> string) list" where
  "re_matches ic (Lit l) s = (if lit_match ic l s then [([], drop (length l) s)] else [])"
| "re_matches ic (Rep cs lo hi) s = map (\<lambda>rest. ([], rest)) (rep_matches ic cs lo hi s)"
| "re_matches ic (Seq a b) s =
     concat (map (\<lambda>(g1, r1). map (\<lambda>(g2, r2). (g1 @ g2, r2)) (re_matches ic b r1))
                 (re_matches ic a s))"
| "re_matches ic (Alt a b) s = re_matches ic a s @ re_matches ic b s"
| "re_matches ic (Grp a) s =
     map (\<lambda>(g, rest). (take (length s - length rest) s # g, rest)) (re_matches ic a s)"

record rmatch =
  m_start :: nat
  m_end :: nat
  m_groups :: "string list"

text \<open>\<open>m.group(k)\<close> for \<open>k \<ge> 1\<close>; every group of the service's patterns takes part in
  every match.\<close>

definition group :: "rmatch \<Rightarrow> nat \<Rightarrow> string" where
  "group m k = (if 1 \<le> k \<and> k \<le> length (m_groups m) then m_groups m ! (k - 1) else [])"

text \<open>\<open>re.search\<close>: the first match at the leftmost position where the pattern matches;
  \<open>pos\<close> is the index of \<open>s\<close> in the whole text.\<close>

fun search_from :: "bool \<Rightarrow> regex \<Rightarrow> nat \<Rightarrow> string \<Rightarrow> rmatch option" where
  "search_from ic r pos [] =
     (case re_matches ic r [] of
        [] \<Rightarrow> None
      | (g, rest) # _ \<Rightarrow> Some \<lparr>m_start = pos, m_end = pos, m_groups = g\<rparr>)"
| "search_from ic r pos (c # s) =
     (case re_matches ic r (c # s) of
        [] \<Rightarrow> search_from ic r (Suc pos) s
      | (g, rest) # _ \<Rightarrow>
          Some \<lparr>m_start = pos, m_end = pos + (length (c # s) - length rest), m_groups = g\<rparr>)"

definition re_search :: "bool \<Rightarrow> regex \<Rightarrow> string \<Rightarrow> rmatch option" where
  "re_search ic r s = search_from ic r 0 s"

text \<open>\<open>re.finditer\<close> and \<open>re.sub\<close> scan the text from the left.  After a match the scan goes
  on at the end of the match; after an empty match the next match at that position must
  not be empty (the flag \<open>adv\<close>), as in Python 3.7 and later.\<close>

function finditer_from :: "bool \<Rightarrow> regex \<Rightarrow> bool \<Rightarrow> nat \<Rightarrow> string \<Rightarrow> rmatch list" where
  "finditer_from ic r adv pos s =
     (case filter (\<lambda>(g, rest). \<not> adv \<or> length rest < length s) (re_matches ic r s) of
        (g, rest) # _ \<Rightarrow>
          \<lparr>m_start = pos, m_end = pos + (length s - length rest), m_groups = g\<rparr>
          # (if length rest < length s
             then finditer_from ic r False (pos + (length s - length rest)) rest
             else finditer_from ic r True pos s)
      | [] \<Rightarrow> (case s of [] \<Rightarrow> [] | c # s' \<Rightarrow> finditer_from ic r False (Suc pos) s'))"
  by pat_completeness auto
termination
proof (relation "measure (\<lambda>(ic, r, adv, pos, s). 2 * length s + (if adv then 0 else 1))")
  show "wf (measure (\<lambda>(ic, r, adv, pos, s). 2 * length s + (if adv then 0 else 1)))"
    by simp
qed (auto dest!: filter_eq_ConsD)

declare finditer_from.simps [simp del]

definition re_finditer :: "bool \<Rightarrow> regex \<Rightarrow> string \<Rightarrow> rmatch list" where
  "re_finditer ic r s = finditer_from ic r False 0 s"

function sub_from :: "bool \<Rightarrow> regex \<Rightarrow> string \<Rightarrow> bool \<Rightarrow> string \<Rightarrow> string" where
  "sub_from ic r repl adv s =
     (case filter (\<lambda>(g, rest). \<not> adv \<or> length rest < length s) (re_matches ic r s) of
        (g, rest) # _ \<Rightarrow>
          repl @ (if length rest < length s
                  then sub_from ic r repl False rest
                  else sub_from ic r repl True s)
      | [] \<Rightarrow> (case s of [] \<Rightarrow> [] | c # s' \<Rightarrow> c # sub_from ic r repl False s'))"
  by pat_completeness auto
termination
proof (relation "measure (\<lambda>(ic, r, repl, adv, s). 2 * length s + (if adv then 0 else 1))")
  show "wf (measure (\<lambda>(ic, r, repl, adv, s). 2 * length s + (if adv then 0 else 1)))"
    by simp
qed (auto dest!: filter_eq_ConsD)

declare sub_from.simps [simp del]

text \<open>\<open>re.sub(pattern, repl, s)\<close> with a replacement that has no group reference.\<close>

definition re_sub :: "bool \<Rightarrow> regex \<Rightarrow> string \<Rightarrow> string \<Rightarrow> string" where
  "re_sub ic r repl s = sub_from ic r repl False s"


section \<open>The text normalizer\<close>

definition preprocess_ocr_text :: "string \<Rightarrow> string" where
  "preprocess_ocr_text text0 =
     (let text = re_sub False (Plus (In [Ch (CHR 0x0D), Ch (CHR 0x0A)])) [CHR 0x0A] text0;
          text = re_sub False (Plus (In [Ch (CHR '' ''), Ch (CHR 0x09)])) '' '' text;
          text = str_replace ''Sen Faktur'' ''Seri Faktur'' text;
          text = str_replace ''NPWP |'' ''NPWP :'' text;
          text = str_replace ''NPWP |'' ''NPWP :'' text;
          text = str_replace ''NPWP :'' ''NPWP:'' text;
          text = str_replace ''NIKPaspor'' ''NIK/Paspor'' text;
          text = str_replace ''Palak'' ''Pajak'' text;
          text = re_sub False (Plus (NotIn [Rng (CHR 0x00) (CHR 0x7F)])) [] text;
          text = re_sub False (Plus (In [Ch (CHR '' '')])) '' '' text
      in text)"

section \<open>The field extractor\<close>

text \<open>The separator set \<open>[\s:|\-]\<close> that follows the labels.\<close>

definition SEP :: cset where
  "SEP = In [Cat_space, Ch (CHR '':''), Ch (CHR ''|''), Ch (CHR ''-'')]"

text \<open>\<open>NPWP[\s:|\-]*([0-9.\-]+)\<close>\<close>

definition NPWP_RE :: regex where
  "NPWP_RE = seqs [Lit ''NPWP'', Star SEP,
                   Grp (Plus (In [Rng (CHR ''0'') (CHR ''9''), Ch (CHR ''.''), Ch (CHR ''-'')]))]"

text \<open>\<open>Nama[\s:|\-]*([A-Z0-9 .,&-]+)\<close>\<close>

definition NAMA_RE :: regex where
  "NAMA_RE = seqs [Lit ''Nama'', Star SEP,
                   Grp (Plus (In [Rng (CHR ''A'') (CHR ''Z''), Rng (CHR ''0'') (CHR ''9''),
                                  Ch (CHR '' ''), Ch (CHR ''.''), Ch (CHR '',''), Ch (CHR ''&''),
                                  Ch (CHR ''-'')]))]"

text \<open>\<open>[^0-9]\<close> and \<open>[\s.,]\<close>, each deleted by \<open>re.sub\<close>.\<close>

definition NON_DIGIT :: regex where
  "NON_DIGIT = One (NotIn [Rng (CHR ''0'') (CHR ''9'')])"

definition SPACE_DOT_COMMA :: regex where
  "SPACE_DOT_COMMA = One (In [Cat_space, Ch (CHR ''.''), Ch (CHR '','')])"

definition extract_npwp :: "string \<Rightarrow> string option" where
  "extract_npwp section' =
     (case re_search False NPWP_RE section' of
        Some m \<Rightarrow> Some (re_sub False NON_DIGIT [] (group m 1))
      | None \<Rightarrow> None)"

definition extract_nama :: "string \<Rightarrow> string option" where
  "extract_nama section' =
     (case re_search False NAMA_RE section' of
        Some m \<Rightarrow> Some (str_strip (group m 1))
      | None \<Rightarrow> None)"

text \<open>The seller and the buyer section of the text.\<close>

definition split_sections :: "string \<Rightarrow> string \<times> string" where
  "split_sections text =
     (let penjual_start = re_search True (Lit ''Pengusaha Kena Pajak'') text;
          pembeli_start = re_search True (Lit ''Pembeli Barang Kena Pajak'') text
      in case (penjual_start, pembeli_start) of
           (Some a, Some b) \<Rightarrow> (slice text (m_start a) (m_start b), slice_from text (m_start b))
         | (Some a, None) \<Rightarrow> (slice_from text (m_start a), [])
         | (None, Some b) \<Rightarrow> ([], slice_from text (m_start b))
         | (None, None) \<Rightarrow> ([], []))"

text \<open>The dictionary \<open>patterns\<close>, in its insertion order:
  \<^item> \<open>(?:Kode dan Nomor Seri Faktur Pajak|Nomor[\s:|\-]*Faktur)[\s:|\-]*([0-9.\-]+[ ]*[0-9]+)\<close>
  \<^item> \<open>(?:Tanggal[\s:|\-]*Faktur|,\s*)(\d{1,2}/\d{1,2}/\d{4})\<close>
  \<^item> \<open>Dasar Pengenaan Pajak[\s:|\-]*([0-9.,]+)\<close>
  \<^item> \<open>Total PPN[\s:|\-]*([0-9.,]+)\<close>\<close>

definition NOMOR_RE :: regex where
  "NOMOR_RE =
     seqs [Alt (Lit ''Kode dan Nomor Seri Faktur Pajak'')
               (seqs [Lit ''Nomor'', Star SEP, Lit ''Faktur'']),
           Star SEP,
           Grp (seqs [Plus (In [Rng (CHR ''0'') (CHR ''9''), Ch (CHR ''.''), Ch (CHR ''-'')]),
                      Star (In [Ch (CHR '' '')]),
                      Plus (In [Rng (CHR ''0'') (CHR ''9'')])])]"

definition TANGGAL_RE :: regex where
  "TANGGAL_RE =
     seqs [Alt (seqs [Lit ''Tanggal'', Star SEP, Lit ''Faktur''])
               (seqs [Lit '','', Star (In [Cat_space])]),
           Grp (seqs [Rep (In [Cat_digit]) 1 (Some 2), Lit ''/'',
                      Rep (In [Cat_digit]) 1 (Some 2), Lit ''/'',
                      Rep (In [Cat_digit]) 4 (Some 4)])]"

definition DPP_RE :: regex where
  "DPP_RE = seqs [Lit ''Dasar Pengenaan Pajak'', Star SEP,
                  Grp (Plus (In [Rng (CHR ''0'') (CHR ''9''), Ch (CHR ''.''), Ch (CHR '','')]))]"

definition PPN_RE :: regex where
  "PPN_RE = seqs [Lit ''Total PPN'', Star SEP,
                  Grp (Plus (In [Rng (CHR ''0'') (CHR ''9''), Ch (CHR ''.''), Ch (CHR '','')]))]"

definition patterns :: "(string \<times> regex) list" where
  "patterns = [(''nomorFaktur'', NOMOR_RE), (''tanggalFaktur'', TANGGAL_RE),
               (''jumlahDpp'', DPP_RE), (''jumlahPpn'', PPN_RE)]"

text \<open>The fallback date pattern \<open>,\s*(\d{1,2})\s+([A-Z]+)\s+(\d{4})\<close>.\<close>

definition PLACE_DATE_RE :: regex where
  "PLACE_DATE_RE =
     seqs [Lit '','', Star (In [Cat_space]),
           Grp (Rep (In [Cat_digit]) 1 (Some 2)), Plus (In [Cat_space]),
           Grp (Plus (In [Rng (CHR ''A'') (CHR ''Z'')])), Plus (In [Cat_space]),
           Grp (Rep (In [Cat_digit]) 4 (Some 4))]"

definition indo_months :: "string \<rightharpoonup> string" where
  "indo_months = map_of
     [(''JANUARI'', ''01''), (''FEBRUARI'', ''02''), (''MARET'', ''03''), (''APRIL'', ''04''),
      (''MEI'', ''05''), (''JUNI'', ''06''), (''JULI'', ''07''), (''AGUSTUS'', ''08''),
      (''SEPTEMBER'', ''09''), (''OKTOBER'', ''10''), (''NOVEMBER'', ''11''),
      (''DESEMBER'', ''12'')]"

text \<open>One turn of the loop over \<open>patterns\<close>.\<close>

definition scan_field :: "string \<Rightarrow> py_dict \<Rightarrow> string \<times> regex \<Rightarrow> py_dict" where
  "scan_field text fields' fp =
     (let fld = fst fp; pattern = snd fp in
      case re_search True pattern text of
        Some m \<Rightarrow>
          (let v = str_strip (group m 1);
               v = (if fld = ''nomorFaktur'' then re_sub False NON_DIGIT [] v else v);
               v = (if fld \<in> set [''jumlahDpp'', ''jumlahPpn'']
                    then re_sub False SPACE_DOT_COMMA [] v else v)
           in fields'(fld \<mapsto> Some v))
      | None \<Rightarrow>
          (if fld = ''tanggalFaktur'' then
             (case re_search True PLACE_DATE_RE text of
                Some m3 \<Rightarrow>
                  (let day = group m3 1;
                       month_str = str_upper (group m3 2);
                       year = group m3 3;
                       month = indo_months month_str
                   in if truthy month
                      then fields'(fld \<mapsto> Some (str_zfill 2 day @ ''/'' @ the month @ ''/'' @ year))
                      else fields'(fld \<mapsto> dict_get fields' fld))
              | None \<Rightarrow> fields'(fld \<mapsto> dict_get fields' fld))
           else fields'(fld \<mapsto> dict_get fields' fld)))"

definition parse_pdf_fields :: "string \<Rightarrow> py_dict" where
  "parse_pdf_fields raw =
     (let text = preprocess_ocr_text raw;
          penjual_section = fst (split_sections text);
          pembeli_section = snd (split_sections text);
          npwp_penjual = (if penjual_section \<noteq> [] then extract_npwp penjual_section else None);
          npwp_penjual = (if \<not> truthy npwp_penjual then extract_npwp text else npwp_penjual);
          fields' = Map.empty(''npwpPenjual'' \<mapsto> npwp_penjual);
          nama_penjual = (if penjual_section \<noteq> [] then extract_nama penjual_section else None);
          nama_penjual = (if \<not> truthy nama_penjual then extract_nama text else nama_penjual);
          fields' = fields'(''namaPenjual'' \<mapsto> nama_penjual);
          npwp_pembeli = (if pembeli_section \<noteq> [] then extract_npwp pembeli_section else None);
          npwp_pembeli =
            (if \<not> truthy npwp_pembeli then
               (let all_npwp = re_finditer False NPWP_RE text in
                if length all_npwp > 1
                then Some (re_sub False NON_DIGIT [] (group (all_npwp ! 1) 1))
                else None)
             else npwp_pembeli);
          fields' = fields'(''npwpPembeli'' \<mapsto> npwp_pembeli);
          nama_pembeli = (if pembeli_section \<noteq> [] then extract_nama pembeli_section else None);
          nama_pembeli =
            (if \<not> truthy nama_pembeli then
               (let all_nama = re_finditer False NAMA_RE text in
                if length all_nama > 1
                then Some (str_strip (group (all_nama ! 1) 1))
                else None)
             else nama_pembeli);
          fields' = fields'(''namaPembeli'' \<mapsto> nama_pembeli)
      in foldl (scan_field text) fields' patterns)"

section \<open>The reference fetcher\<close>

text \<open>The service raises \<open>HTTPException(status_code, detail)\<close>.\<close>

datatype http_error = HTTPException nat string

text \<open>The module constant \<open>MOCK_DJP_XML\<close>, line by line.\<close>

definition join_lines :: "string list \<Rightarrow> string" where
  "join_lines ls = (case ls of [] \<Rightarrow> [] | l # rest \<Rightarrow> l @ concat (map (\<lambda>x. CHR 0x0A # x) rest))"

definition MOCK_DJP_XML :: string where
  "MOCK_DJP_XML = join_lines
     [''<resValidateFakturPm>'',
      ''<kdJenisTransaksi>07</kdJenisTransaksi>'',
      ''<fgPengganti>0</fgPengganti>'',
      ''<nomorFaktur>0700002212345678</nomorFaktur>'',
      ''<tanggalFaktur>01/04/2022</tanggalFaktur>'',
      ''<npwpPenjual>012345678012000</npwpPenjual>'',
      ''<namaPenjual>PT ABC</namaPenjual>'',
      ''<alamatPenjual>Jalan Gatot Subroto No. 40A, Senayan, Kebayoran Baru, Jakarta Selatan 12910</alamatPenjual>'',
      ''<npwpLawanTransaksi>023456789217000</npwpLawanTransaksi>'',
      ''<namaLawanTransaksi>PT XYZ</namaLawanTransaksi>'',
      ''<alamatLawanTransaksi>Jalan Kuda Laut No. 1, Sungai Jodoh, Batu Ampar, Batam 29444</alamatLawanTransaksi>'',
      ''<jumlahDpp>15000000</jumlahDpp>'',
      ''<jumlahPpn>1650000</jumlahPpn>'',
      ''<jumlahPpnBm>0</jumlahPpnBm>'',
      ''<statusApproval>Faktur Valid, Sudah Diapprove oleh DJP</statusApproval>'',
      ''<statusFaktur>Faktur Pajak Normal</statusFaktur>'',
      ''<referensi>123/ABC/IV/2022</referensi>'',
      ''<detailTransaksi>'',
      ''<nama>KOMPUTER MERK ABC, HS Code 84714110</nama>'',
      ''<hargaSatuan>5000000</hargaSatuan>'',
      ''<jumlahBarang>3</jumlahBarang>'',
      ''<hargaTotal>15000000</hargaTotal>'',
      ''<diskon>0</diskon>'',
      ''<dpp>15000000</dpp>'',
      ''<ppn>1650000</ppn>'',
      ''<tarifPpnbm>0</tarifPpnbm>'',
      ''<ppnbm>0</ppnbm>'',
      ''</detailTransaksi>'',
      ''</resValidateFakturPm>'']"

text \<open>
  \<open>xml.etree.ElementTree\<close> for the documents the service parses: elements without
  attributes that hold text or further elements.  An element has its tag, its \<open>text\<close>
  (the text between its start tag and its first child or its end tag, \<open>None\<close> when there
  is none) and its children.  \<open>xml_fromstring\<close> is \<open>None\<close> where \<open>ET.fromstring\<close> raises
  \<open>ParseError\<close>, and also on XML outside this fragment (attributes, entities, comments,
  empty-element tags), which the mock record does not use.
\<close>

datatype xml = Element (el_tag: string) (el_text: "string option") (el_children: "xml list")

datatype xtoken = TOpen string | TClose string | TText string

definition name_char :: "char \<Rightarrow> bool" where
  "name_char c = (between (CHR ''A'') (CHR ''Z'') c \<or> between (CHR ''a'') (CHR ''z'') c
                 \<or> between (CHR ''0'') (CHR ''9'') c \<or> c = CHR ''_'')"

definition mk_tag :: "string \<Rightarrow> xtoken option" where
  "mk_tag name =
     (case name of
        [] \<Rightarrow> None
      | c # n \<Rightarrow>
          if c = CHR ''/'' then (if n \<noteq> [] \<and> list_all name_char n then Some (TClose n) else None)
          else (if list_all name_char name then Some (TOpen name) else None))"

text \<open>The tokens of a document; \<open>acc\<close> holds the characters of the current token, last
  first, and \<open>in_tag\<close> tells whether the scan is between \<open><\<close> and \<open>>\<close>.\<close>

fun xml_tokens :: "string \<Rightarrow> string \<Rightarrow> bool \<Rightarrow> xtoken list option" where
  "xml_tokens [] acc in_tag =
     (if in_tag then None else Some (if acc = [] then [] else [TText (rev acc)]))"
| "xml_tokens (c # s) acc in_tag =
     (if in_tag then
        (if c = CHR ''>'' then
           (case (mk_tag (rev acc), xml_tokens s [] False) of
              (Some t, Some ts) \<Rightarrow> Some (t # ts)
            | _ \<Rightarrow> None)
         else xml_tokens s (c # acc) True)
      else
        (if c = CHR ''<'' then
           (case xml_tokens s [] True of
              Some ts \<Rightarrow> Some (if acc = [] then ts else TText (rev acc) # ts)
            | None \<Rightarrow> None)
         else if c = CHR ''&'' then None
         else xml_tokens s (c # acc) False))"

text \<open>The tree of a token list.  The stack holds the open elements, innermost first,
  each with its tag, its text and its children so far (last first).\<close>

fun xml_build :: "xtoken list \<Rightarrow> (string \<times> string option \<times> xml list) list \<Rightarrow> xml option \<Rightarrow> xml option" where
  "xml_build [] stack root = (if stack = [] then root else None)"
| "xml_build (TOpen n # ts) stack root =
     (if stack = [] \<and> root \<noteq> None then None else xml_build ts ((n, None, []) # stack) root)"
| "xml_build (TText t # ts) stack root =
     (case stack of
        [] \<Rightarrow> if list_all is_space t then xml_build ts stack root else None
      | (n, tx, ch) # st \<Rightarrow>
          if ch = [] then xml_build ts ((n, Some t, ch) # st) root
          else xml_build ts stack root)"
| "xml_build (TClose n # ts) stack root =
     (case stack of
        [] \<Rightarrow> None
      | (m, tx, ch) # st \<Rightarrow>
          if m \<noteq> n then None
          else (case st of
                  [] \<Rightarrow> xml_build ts [] (Some (Element m tx (rev ch)))
                | (pm, ptx, pch) # st' \<Rightarrow>
                    xml_build ts ((pm, ptx, Element m tx (rev ch) # pch) # st') root))"

definition xml_fromstring :: "string \<Rightarrow> xml option" where
  "xml_fromstring s = (case xml_tokens s [] False of None \<Rightarrow> None | Some ts \<Rightarrow> xml_build ts [] None)"

text \<open>\<open>root.find(tag)\<close>: the first child with that tag.\<close>

definition xml_find :: "xml \<Rightarrow> string \<Rightarrow> xml option" where
  "xml_find root t = List.find (\<lambda>e. el_tag e = t) (el_children root)"

definition field_mapping :: "(string \<times> string) list" where
  "field_mapping =
     [(''npwpPenjual'', ''npwpPenjual''),
      (''namaPenjual'', ''namaPenjual''),
      (''npwpPembeli'', ''npwpLawanTransaksi''),
      (''namaPembeli'', ''namaLawanTransaksi''),
      (''nomorFaktur'', ''nomorFaktur''),
      (''tanggalFaktur'', ''tanggalFaktur''),
      (''jumlahDpp'', ''jumlahDpp''),
      (''jumlahPpn'', ''jumlahPpn'')]"

definition map_field :: "xml \<Rightarrow> py_dict \<Rightarrow> string \<times> string \<Rightarrow> py_dict" where
  "map_field root djp_data fx =
     (case xml_find root (snd fx) of
        Some element \<Rightarrow> djp_data(fst fx \<mapsto> el_text element)
      | None \<Rightarrow> djp_data(fst fx \<mapsto> None))"

definition fetch_djp_data :: "string option \<Rightarrow> http_error + py_dict" where
  "fetch_djp_data qr_url =
     (case xml_fromstring MOCK_DJP_XML of
        None \<Rightarrow> Inl (HTTPException 500 ''Failed to parse DJP response'')
      | Some root \<Rightarrow> Inr (foldl (map_field root) Map.empty field_mapping))"

section \<open>The reconciler\<close>

record deviation =
  field :: string
  pdf_value :: "string option"
  djp_api_value :: "string option"
  deviation_type :: string

definition FIELDS :: "string list" where
  "FIELDS = [''npwpPenjual'', ''namaPenjual'', ''npwpPembeli'', ''namaPembeli'',
             ''nomorFaktur'', ''tanggalFaktur'', ''jumlahDpp'', ''jumlahPpn'']"

text \<open>One turn of the loop of \<open>compare_fields\<close>: \<open>continue\<close> leaves the list as it is.\<close>

definition compare_field :: "py_dict \<Rightarrow> py_dict \<Rightarrow> deviation list \<Rightarrow> string \<Rightarrow> deviation list" where
  "compare_field pdf_data djp_data deviations fld =
     (let pdf_v = dict_get pdf_data fld; djp_v = dict_get djp_data fld in
      if pdf_v = None \<and> djp_v \<noteq> None then
        deviations @ [\<lparr>field = fld, pdf_value = pdf_v, djp_api_value = djp_v,
                        deviation_type = ''missing_in_pdf''\<rparr>]
      else if pdf_v \<noteq> None \<and> djp_v = None then
        deviations @ [\<lparr>field = fld, pdf_value = pdf_v, djp_api_value = djp_v,
                        deviation_type = ''missing_in_api''\<rparr>]
      else if pdf_v \<noteq> djp_v then
        deviations @ [\<lparr>field = fld, pdf_value = pdf_v, djp_api_value = djp_v,
                        deviation_type = ''mismatch''\<rparr>]
      else deviations)"

definition compare_fields :: "py_dict \<Rightarrow> py_dict \<Rightarrow> deviation list" where
  "compare_fields pdf_data djp_data = foldl (compare_field pdf_data djp_data) [] FIELDS"


section \<open>The validation orchestrator\<close>

definition is_image_file :: "string \<Rightarrow> bool" where
  "is_image_file filename = str_endswith_any (str_lower filename) [''.jpg'', ''.jpeg'', ''.png'']"

definition is_pdf_file :: "string \<Rightarrow> bool" where
  "is_pdf_file filename = str_endswith (str_lower filename) ''.pdf''"

text \<open>
  The libraries the service calls on the uploaded bytes are parameters of the model:
  \<^item> \<open>pdf_pages\<close>: what \<open>pdfplumber\<close> gives for a PDF, the result of \<open>extract_text()\<close> for
    each page (which may be \<open>None\<close>), or \<open>None\<close> when a call raises;
  \<^item> \<open>image_text\<close>: what opening, preprocessing and \<open>pytesseract.image_to_string\<close> give for
    an image, or \<open>None\<close> when a call raises;
  \<^item> \<open>qr_code_from_pdf\<close>, \<open>qr_code_from_image\<close>: the results of \<open>extract_qr_code_from_pdf\<close>
    and \<open>extract_qr_code_from_image\<close>, which catch every exception and return an optional
    string.
\<close>

type_synonym bytes = "nat list"

record collaborators =
  pdf_pages :: "bytes \<Rightarrow> string option list option"
  image_text :: "bytes \<Rightarrow> string option"
  qr_code_from_pdf :: "bytes \<Rightarrow> string option"
  qr_code_from_image :: "bytes \<Rightarrow> string option"

definition extract_text_from_pdf :: "collaborators \<Rightarrow> bytes \<Rightarrow> http_error + string" where
  "extract_text_from_pdf env pdf_content =
     (case pdf_pages env pdf_content of
        None \<Rightarrow> Inl (HTTPException 400 ''Failed to extract text from PDF'')
      | Some pages \<Rightarrow>
          Inr (foldl (\<lambda>text page. text @ (case page of None \<Rightarrow> [] | Some t \<Rightarrow> t)) [] pages))"

definition extract_text_from_image :: "collaborators \<Rightarrow> bytes \<Rightarrow> http_error + string" where
  "extract_text_from_image env image_content =
     (case image_text env image_content of
        None \<Rightarrow> Inl (HTTPException 400 ''Failed to extract text from image'')
      | Some text \<Rightarrow> Inr text)"

record validation_results =
  deviations :: "deviation list"
  validated_data :: py_dict
  extracted_data :: py_dict
  raw_ocr_text :: string
  qr_url :: "string option"

record validation_response =
  status :: string
  message :: string
  results :: validation_results

text \<open>The second half of \<open>validate_efaktur\<close>, which both branches share: reference fetch,
  comparison and the response.\<close>

definition reconcile :: "py_dict \<Rightarrow> string option \<Rightarrow> string \<Rightarrow> http_error + validation_response" where
  "reconcile pdf_data qr extracted_text =
     (case fetch_djp_data qr of
        Inl e \<Rightarrow> Inl e
      | Inr djp_data \<Rightarrow>
          (let devs = compare_fields pdf_data djp_data;
               st = (if devs \<noteq> [] then ''validated_with_deviations''
                     else ''validated_successfully'');
               msg = (if devs \<noteq> []
                      then ''Found '' @ str_of_nat (length devs) @ '' deviation(s) in e-Faktur data''
                      else ''E-Faktur data matches DJP records'')
           in Inr \<lparr>status = st, message = msg,
                    results = \<lparr>deviations = devs, validated_data = djp_data,
                                extracted_data = pdf_data, raw_ocr_text = extracted_text,
                                qr_url = qr\<rparr>\<rparr>))"

definition validate_efaktur :: "collaborators \<Rightarrow> bytes \<Rightarrow> string \<Rightarrow> http_error + validation_response" where
  "validate_efaktur env file_content filename =
     (if is_pdf_file filename then
        (case extract_text_from_pdf env file_content of
           Inl e \<Rightarrow> Inl e
         | Inr pdf_text \<Rightarrow>
             if pdf_text = [] then Inl (HTTPException 400 ''No text found in PDF'')
             else reconcile (parse_pdf_fields pdf_text) (qr_code_from_pdf env file_content) pdf_text)
      else if is_image_file filename then
        (case extract_text_from_image env file_content of
           Inl e \<Rightarrow> Inl e
         | Inr image_text' \<Rightarrow>
             if image_text' = [] then Inl (HTTPException 400 ''No text found in image'')
             else reconcile (parse_pdf_fields image_text') (qr_code_from_image env file_content)
                    image_text')
      else Inl (HTTPException 400 ''Only PDF and JPG/PNG files are supported''))"

section \<open>The reconciler: the deviation rule and its symmetry\<close>

text \<open>The rule of the specification for one field: nothing when both values are absent,
  \<open>missing_in_pdf\<close> when only the extracted value is absent, \<open>missing_in_api\<close> when only the
  reference value is absent, \<open>mismatch\<close> when both are present and differ as strings,
  nothing when they are equal.\<close>

definition deviation_rule :: "py_dict \<Rightarrow> py_dict \<Rightarrow> string \<Rightarrow> deviation option" where
  "deviation_rule extracted reference fld =
     (case (dict_get extracted fld, dict_get reference fld) of
        (None, None) \<Rightarrow> None
      | (None, Some y) \<Rightarrow>
          Some \<lparr>field = fld, pdf_value = None, djp_api_value = Some y,
                deviation_type = ''missing_in_pdf''\<rparr>
      | (Some x, None) \<Rightarrow>
          Some \<lparr>field = fld, pdf_value = Some x, djp_api_value = None,
                deviation_type = ''missing_in_api''\<rparr>
      | (Some x, Some y) \<Rightarrow>
          if x \<noteq> y
          then Some \<lparr>field = fld, pdf_value = Some x, djp_api_value = Some y,
                     deviation_type = ''mismatch''\<rparr>
          else None)"

text \<open>A deviation read from the other side: the two values change places, and
  \<open>missing_in_pdf\<close> and \<open>missing_in_api\<close> change into each other.\<close>

definition swap_deviation :: "deviation \<Rightarrow> deviation" where
  "swap_deviation d =
     \<lparr>field = field d, pdf_value = djp_api_value d, djp_api_value = pdf_value d,
      deviation_type =
        (if deviation_type d = ''missing_in_pdf'' then ''missing_in_api''
         else if deviation_type d = ''missing_in_api'' then ''missing_in_pdf''
         else deviation_type d)\<rparr>"

lemma compare_field_rule:
  "compare_field a b acc f = acc @ (case deviation_rule a b f of None \<Rightarrow> [] | Some d \<Rightarrow> [d])"
  by (cases "dict_get a f"; cases "dict_get b f")
     (simp_all add: compare_field_def deviation_rule_def Let_def)

lemma foldl_compare_field:
  "foldl (compare_field a b) acc fs = acc @ List.map_filter (deviation_rule a b) fs"
  by (induction fs arbitrary: acc)
     (simp_all add: compare_field_rule List.map_filter_simps split: option.split)

lemma compare_fields_rule: "compare_fields a b = List.map_filter (deviation_rule a b) FIELDS"
  by (simp add: compare_fields_def foldl_compare_field)

lemma deviation_rule_field: "deviation_rule a b f = Some d \<Longrightarrow> field d = f"
  by (auto simp: deviation_rule_def split: option.splits if_splits)

lemma map_field_map_filter:
  "map field (List.map_filter (deviation_rule a b) fs) = filter (\<lambda>f. deviation_rule a b f \<noteq> None) fs"
  by (induction fs) (auto simp: List.map_filter_simps deviation_rule_field split: option.split)

lemma distinct_FIELDS: "distinct FIELDS"
  by (simp add: FIELDS_def)

text \<open>
  Claim C1.  \<open>compare_fields\<close> walks the fixed list of the eight fields in its order and
  reports, for each field, exactly what the deviation rule gives: the result is the
  list of the rule's deviations for the fields in order.  So the reported fields are the
  fields for which the rule gives a deviation, they appear in the order of the list, no
  field appears twice, and there are at most eight deviations.
\<close>

theorem C1_compare_fields_rule:
  "compare_fields a b = List.map_filter (deviation_rule a b) FIELDS
   \<and> map field (compare_fields a b) = filter (\<lambda>f. deviation_rule a b f \<noteq> None) FIELDS
   \<and> subseq (map field (compare_fields a b)) FIELDS
   \<and> distinct (map field (compare_fields a b))
   \<and> length (compare_fields a b) \<le> 8"
proof -
  have r: "compare_fields a b = List.map_filter (deviation_rule a b) FIELDS"
    by (rule compare_fields_rule)
  have m: "map field (compare_fields a b) = filter (\<lambda>f. deviation_rule a b f \<noteq> None) FIELDS"
    by (simp add: r map_field_map_filter)
  have l: "length (map field (compare_fields a b)) \<le> length FIELDS"
    unfolding m by (rule length_filter_le)
  have "length FIELDS = 8" by (simp add: FIELDS_def)
  with l have "length (compare_fields a b) \<le> 8" by simp
  moreover have "subseq (map field (compare_fields a b)) FIELDS"
    unfolding m by simp
  moreover have "distinct (map field (compare_fields a b))"
    unfolding m using distinct_FIELDS by simp
  ultimately show ?thesis using r m by simp
qed

lemma deviation_rule_swap:
  "deviation_rule b a f = map_option swap_deviation (deviation_rule a b f)"
  by (cases "dict_get a f"; cases "dict_get b f")
     (auto simp: deviation_rule_def swap_deviation_def)

lemma map_filter_map_option:
  "List.map_filter (\<lambda>x. map_option g (f x)) xs = map g (List.map_filter f xs)"
  by (induction xs) (auto simp: List.map_filter_simps split: option.split)

text \<open>
  Claim C7.  Comparing in the other direction gives the same deviations read from the
  other side: the same fields in the same order, \<open>missing_in_pdf\<close> and \<open>missing_in_api\<close>
  exchanged, and every \<open>mismatch\<close> still a \<open>mismatch\<close> with its two values exchanged.
\<close>

theorem C7_compare_fields_swap:
  "compare_fields b a = map swap_deviation (compare_fields a b)"
proof -
  have "deviation_rule b a = (\<lambda>f. map_option swap_deviation (deviation_rule a b f))"
    by (rule ext) (rule deviation_rule_swap)
  then show ?thesis
    by (simp only: compare_fields_rule map_filter_map_option)
qed

section \<open>The field extractor: the keys of the result\<close>

lemma dom_scan_field: "dom (scan_field text d fp) = insert (fst fp) (dom d)"
  by (simp add: scan_field_def Let_def split: option.split)

lemma dom_foldl_scan_field: "dom (foldl (scan_field text) d ps) = dom d \<union> fst ` set ps"
  by (induction ps arbitrary: d) (auto simp: dom_scan_field)

text \<open>
  Claim C9.  For every input text the dictionary that \<open>parse_pdf_fields\<close> returns has
  exactly the eight field names as its keys (the list \<open>FIELDS\<close> has eight different
  entries); each key is bound to a string or to \<open>None\<close>, as the type of the dictionary
  says.
\<close>

theorem C9_parse_pdf_fields_keys:
  "dom (parse_pdf_fields t) = set FIELDS \<and> distinct FIELDS \<and> length FIELDS = 8"
proof -
  have "dom (parse_pdf_fields t) = set FIELDS"
    unfolding parse_pdf_fields_def Let_def dom_foldl_scan_field
    by (auto simp: patterns_def FIELDS_def)
  then show ?thesis by (simp add: distinct_FIELDS) (simp add: FIELDS_def)
qed

section \<open>The reference record\<close>

text \<open>The element tree of the mock document.\<close>

lemma xml_fromstring_mock: "xml_fromstring MOCK_DJP_XML =
  Some (Element ''resValidateFakturPm'' (Some [CHR 0x0A])
    [Element ''kdJenisTransaksi'' (Some ''07'') [],
     Element ''fgPengganti'' (Some ''0'') [],
     Element ''nomorFaktur'' (Some ''0700002212345678'') [],
     Element ''tanggalFaktur'' (Some ''01/04/2022'') [],
     Element ''npwpPenjual'' (Some ''012345678012000'') [],
     Element ''namaPenjual'' (Some ''PT ABC'') [],
     Element ''alamatPenjual''
      (Some ''Jalan Gatot Subroto No. 40A, Senayan, Kebayoran Baru, Jakarta Selatan 12910'') [],
     Element ''npwpLawanTransaksi'' (Some ''023456789217000'') [],
     Element ''namaLawanTransaksi'' (Some ''PT XYZ'') [],
     Element ''alamatLawanTransaksi''
      (Some ''Jalan Kuda Laut No. 1, Sungai Jodoh, Batu Ampar, Batam 29444'') [],
     Element ''jumlahDpp'' (Some ''15000000'') [],
     Element ''jumlahPpn'' (Some ''1650000'') [],
     Element ''jumlahPpnBm'' (Some ''0'') [],
     Element ''statusApproval'' (Some ''Faktur Valid, Sudah Diapprove oleh DJP'') [],
     Element ''statusFaktur'' (Some ''Faktur Pajak Normal'') [],
     Element ''referensi'' (Some ''123/ABC/IV/2022'') [],
     Element ''detailTransaksi'' (Some [CHR 0x0A])
      [Element ''nama'' (Some ''KOMPUTER MERK ABC, HS Code 84714110'') [],
       Element ''hargaSatuan'' (Some ''5000000'') [],
       Element ''jumlahBarang'' (Some ''3'') [],
       Element ''hargaTotal'' (Some ''15000000'') [],
       Element ''diskon'' (Some ''0'') [],
       Element ''dpp'' (Some ''15000000'') [],
       Element ''ppn'' (Some ''1650000'') [],
       Element ''tarifPpnbm'' (Some ''0'') [],
       Element ''ppnbm'' (Some ''0'') []]])"
  by code_simp


text \<open>The record the reference fetcher builds from it, whatever the identifier.\<close>

definition MOCK_RECORD :: py_dict where
  "MOCK_RECORD = Map.empty
     (''npwpPenjual'' \<mapsto> Some ''012345678012000'',
      ''namaPenjual'' \<mapsto> Some ''PT ABC'',
      ''npwpPembeli'' \<mapsto> Some ''023456789217000'',
      ''namaPembeli'' \<mapsto> Some ''PT XYZ'',
      ''nomorFaktur'' \<mapsto> Some ''0700002212345678'',
      ''tanggalFaktur'' \<mapsto> Some ''01/04/2022'',
      ''jumlahDpp'' \<mapsto> Some ''15000000'',
      ''jumlahPpn'' \<mapsto> Some ''1650000'')"

lemma fetch_djp_data_mock: "fetch_djp_data qr = Inr MOCK_RECORD"
  by (simp add: fetch_djp_data_def xml_fromstring_mock field_mapping_def map_field_def
      xml_find_def MOCK_RECORD_def)

lemma mock_record_present: "f \<in> set FIELDS \<Longrightarrow> dict_get MOCK_RECORD f \<noteq> None"
  by (auto simp: FIELDS_def MOCK_RECORD_def dict_get_def)

lemma deviation_rule_type:
  "deviation_rule a b f = Some d \<Longrightarrow>
     (deviation_type d = ''missing_in_api'') = (dict_get a f \<noteq> None \<and> dict_get b f = None)"
  by (auto simp: deviation_rule_def split: option.splits if_splits)

lemma deviation_rule_types:
  "deviation_rule a b f = Some d \<Longrightarrow>
     deviation_type d = ''missing_in_pdf'' \<or> deviation_type d = ''missing_in_api''
     \<or> deviation_type d = ''mismatch''"
  by (auto simp: deviation_rule_def split: option.splits if_splits)

lemma in_compare_fields:
  "d \<in> set (compare_fields a b) \<Longrightarrow> \<exists>f \<in> set FIELDS. deviation_rule a b f = Some d"
  by (auto simp: compare_fields_rule List.map_filter_def)

lemma reconcile_Inr:
  "reconcile pd qr t =
     Inr \<lparr>status = (if compare_fields pd MOCK_RECORD \<noteq> [] then ''validated_with_deviations''
                     else ''validated_successfully''),
          message = (if compare_fields pd MOCK_RECORD \<noteq> []
                     then ''Found '' @ str_of_nat (length (compare_fields pd MOCK_RECORD))
                          @ '' deviation(s) in e-Faktur data''
                     else ''E-Faktur data matches DJP records''),
          results = \<lparr>deviations = compare_fields pd MOCK_RECORD, validated_data = MOCK_RECORD,
                     extracted_data = pd, raw_ocr_text = t, qr_url = qr\<rparr>\<rparr>"
  by (simp add: reconcile_def fetch_djp_data_mock Let_def)

lemma validate_efaktur_Inr:
  assumes "validate_efaktur env c fn = Inr r"
  shows "\<exists>t qr. t \<noteq> [] \<and> reconcile (parse_pdf_fields t) qr t = Inr r"
  using assms
  by (auto simp: validate_efaktur_def split: if_splits sum.splits)

lemma validate_efaktur_result:
  assumes "validate_efaktur env c fn = Inr r"
  shows "validated_data (results r) = MOCK_RECORD
         \<and> deviations (results r) = compare_fields (extracted_data (results r)) MOCK_RECORD
         \<and> extracted_data (results r) = parse_pdf_fields (raw_ocr_text (results r))
         \<and> raw_ocr_text (results r) \<noteq> []
         \<and> status r = (if deviations (results r) \<noteq> [] then ''validated_with_deviations''
                        else ''validated_successfully'')"
proof -
  from validate_efaktur_Inr [OF assms] obtain t qr
    where t: "t \<noteq> []" and "reconcile (parse_pdf_fields t) qr t = Inr r" by blast
  then have "r = \<lparr>status = (if compare_fields (parse_pdf_fields t) MOCK_RECORD \<noteq> [] then ''validated_with_deviations''
                     else ''validated_successfully''),
          message = (if compare_fields (parse_pdf_fields t) MOCK_RECORD \<noteq> []
                     then ''Found '' @ str_of_nat (length (compare_fields (parse_pdf_fields t) MOCK_RECORD))
                          @ '' deviation(s) in e-Faktur data''
                     else ''E-Faktur data matches DJP records''),
          results = \<lparr>deviations = compare_fields (parse_pdf_fields t) MOCK_RECORD, validated_data = MOCK_RECORD,
                     extracted_data = parse_pdf_fields t, raw_ocr_text = t, qr_url = qr\<rparr>\<rparr>"
    by (simp add: reconcile_Inr)
  with t show ?thesis by simp
qed

text \<open>
  Claim C10.  With the static mock document \<open>fetch_djp_data\<close> returns, for every
  identifier, a record in which all eight fields are present; so in every response that
  \<open>validate_efaktur\<close> produces no deviation has the type \<open>missing_in_api\<close>: each one is
  \<open>missing_in_pdf\<close> or \<open>mismatch\<close>.
\<close>

theorem C10_no_missing_in_api:
  "(\<exists>d. fetch_djp_data qr = Inr d \<and> list_all (\<lambda>f. dict_get d f \<noteq> None) FIELDS)
   \<and> (validate_efaktur env c fn = Inr r \<longrightarrow>
        list_all (\<lambda>d. deviation_type d \<noteq> ''missing_in_api''
                     \<and> (deviation_type d = ''missing_in_pdf'' \<or> deviation_type d = ''mismatch''))
                 (deviations (results r)))"
proof (intro conjI impI)
  show "\<exists>d. fetch_djp_data qr = Inr d \<and> list_all (\<lambda>f. dict_get d f \<noteq> None) FIELDS"
    using mock_record_present by (auto simp: fetch_djp_data_mock list_all_iff)
next
  assume "validate_efaktur env c fn = Inr r"
  from validate_efaktur_result [OF this]
  have dv: "deviations (results r) = compare_fields (extracted_data (results r)) MOCK_RECORD"
    by simp
  show "list_all (\<lambda>d. deviation_type d \<noteq> ''missing_in_api''
                     \<and> (deviation_type d = ''missing_in_pdf'' \<or> deviation_type d = ''mismatch''))
                 (deviations (results r))"
    unfolding list_all_iff dv
  proof
    fix d assume "d \<in> set (compare_fields (extracted_data (results r)) MOCK_RECORD)"
    from in_compare_fields [OF this] obtain f where f: "f \<in> set FIELDS"
      and d: "deviation_rule (extracted_data (results r)) MOCK_RECORD f = Some d" by blast
    from deviation_rule_type [OF d] mock_record_present [OF f]
    have "deviation_type d \<noteq> ''missing_in_api''" by simp
    with deviation_rule_types [OF d]
    show "deviation_type d \<noteq> ''missing_in_api''
          \<and> (deviation_type d = ''missing_in_pdf'' \<or> deviation_type d = ''mismatch'')" by blast
  qed
qed


text \<open>Sample inputs: collaborators that read the same text from every upload, and a
  document that carries all eight fields of the mock record.\<close>

definition SAMPLE_ENV :: "string \<Rightarrow> collaborators" where
  "SAMPLE_ENV text =
     \<lparr>pdf_pages = (\<lambda>b. Some [Some text]), image_text = (\<lambda>b. Some text),
      qr_code_from_pdf = (\<lambda>b. None), qr_code_from_image = (\<lambda>b. None)\<rparr>"

definition SCENARIO_TEXT :: string where
  "SCENARIO_TEXT = join_lines
     [''Nama: PT ABC'',
      ''NPWP: 01.234.567.8-012.000'',
      ''Nama: PT XYZ'',
      ''NPWP: 02.345.678.9-217.000'',
      ''Nomor Faktur: 070.000-22.12345678'',
      ''Jakarta, 01/04/2022'',
      ''Dasar Pengenaan Pajak 15.000.000'',
      ''Total PPN 1.650.000'']"

lemma is_pdf_file_sample: "is_pdf_file ''faktur.pdf''"
  by code_simp

lemma validate_efaktur_pdf:
  assumes "is_pdf_file fn" and "pdf_pages env c = Some [Some t]" and "t \<noteq> []"
  shows "validate_efaktur env c fn = reconcile (parse_pdf_fields t) (qr_code_from_pdf env c) t"
  using assms by (simp add: validate_efaktur_def extract_text_from_pdf_def)

lemma validate_sample:
  "t \<noteq> [] \<Longrightarrow> validate_efaktur (SAMPLE_ENV t) [] ''faktur.pdf'' = reconcile (parse_pdf_fields t) None t"
  using validate_efaktur_pdf [of "''faktur.pdf''" "SAMPLE_ENV t" "[]" t] is_pdf_file_sample
  by (simp add: SAMPLE_ENV_def)

text \<open>The claim at a PDF upload whose text is \<open>NPWP\<close>.\<close>

theorem C10_witness:
  "\<exists>r. validate_efaktur (SAMPLE_ENV ''NPWP'') [] ''faktur.pdf'' = Inr r
       \<and> list_all (\<lambda>d. deviation_type d \<noteq> ''missing_in_api''
                     \<and> (deviation_type d = ''missing_in_pdf'' \<or> deviation_type d = ''mismatch''))
                 (deviations (results r))"
proof -
  have "validate_efaktur (SAMPLE_ENV ''NPWP'') [] ''faktur.pdf'' = reconcile (parse_pdf_fields ''NPWP'') None ''NPWP''"
    by (rule validate_sample) simp
  then obtain r where r: "validate_efaktur (SAMPLE_ENV ''NPWP'') [] ''faktur.pdf'' = Inr r"
    by (simp add: reconcile_Inr)
  with C10_no_missing_in_api [of None "SAMPLE_ENV ''NPWP''" "[]" "''faktur.pdf''" r]
  show ?thesis by blast
qed

section \<open>The orchestrator: status and deviations\<close>

lemma deviation_rule_agree:
  "dict_get a f = dict_get b f \<Longrightarrow> deviation_rule a b f = None"
  by (auto simp: deviation_rule_def split: option.splits)

lemma map_filter_all_None:
  "\<forall>x \<in> set xs. g x = None \<Longrightarrow> List.map_filter g xs = []"
  by (induction xs) (auto simp: List.map_filter_simps)

lemma compare_fields_agree:
  assumes "list_all (\<lambda>f. dict_get a f = dict_get b f) FIELDS"
  shows "compare_fields a b = []"
proof -
  have "\<forall>f \<in> set FIELDS. deviation_rule a b f = None"
    using assms by (auto simp: list_all_iff deviation_rule_agree)
  then have "List.map_filter (deviation_rule a b) FIELDS = []"
    by (rule map_filter_all_None)
  then show ?thesis by (simp add: compare_fields_rule)
qed

text \<open>
  Claim C2.  When \<open>validate_efaktur\<close> returns a response, its status is
  \<open>validated_successfully\<close> exactly when its list of deviations is empty (and otherwise it
  is \<open>validated_with_deviations\<close>); in particular, when the extracted fields and the
  reference record agree on all eight fields, the status is \<open>validated_successfully\<close> and
  the list of deviations is empty.
\<close>

theorem C2_status_iff_no_deviations:
  "validate_efaktur env c fn = Inr r \<longrightarrow>
     ((status r = ''validated_successfully'') = (deviations (results r) = []))
     \<and> (status r = ''validated_successfully'' \<or> status r = ''validated_with_deviations'')
     \<and> (list_all (\<lambda>f. dict_get (extracted_data (results r)) f
                         = dict_get (validated_data (results r)) f) FIELDS
          \<longrightarrow> status r = ''validated_successfully'' \<and> deviations (results r) = [])"
proof
  assume v: "validate_efaktur env c fn = Inr r"
  note res = validate_efaktur_result [OF v]
  have st: "(status r = ''validated_successfully'') = (deviations (results r) = [])"
    using res by auto
  have two: "status r = ''validated_successfully'' \<or> status r = ''validated_with_deviations''"
    using res by auto
  have ag: "list_all (\<lambda>f. dict_get (extracted_data (results r)) f
                         = dict_get (validated_data (results r)) f) FIELDS
          \<longrightarrow> status r = ''validated_successfully'' \<and> deviations (results r) = []"
  proof
    assume "list_all (\<lambda>f. dict_get (extracted_data (results r)) f
                         = dict_get (validated_data (results r)) f) FIELDS"
    then have "compare_fields (extracted_data (results r)) MOCK_RECORD = []"
      using res by (auto intro: compare_fields_agree)
    then have "deviations (results r) = []" using res by simp
    with st show "status r = ''validated_successfully'' \<and> deviations (results r) = []" by simp
  qed
  from st two ag show "((status r = ''validated_successfully'') = (deviations (results r) = []))
     \<and> (status r = ''validated_successfully'' \<or> status r = ''validated_with_deviations'')
     \<and> (list_all (\<lambda>f. dict_get (extracted_data (results r)) f
                         = dict_get (validated_data (results r)) f) FIELDS
          \<longrightarrow> status r = ''validated_successfully'' \<and> deviations (results r) = [])"
    by blast
qed

text \<open>The sample document yields exactly the fields of the mock record.\<close>

lemma scenario_fields:
  "map (dict_get (parse_pdf_fields SCENARIO_TEXT)) FIELDS =
     [Some ''012345678012000'', Some ''PT ABC'', Some ''023456789217000'', Some ''PT XYZ'',
      Some ''0700002212345678'', Some ''01/04/2022'', Some ''15000000'', Some ''1650000'']"
  by code_simp

lemma mock_record_fields:
  "map (dict_get MOCK_RECORD) FIELDS =
     [Some ''012345678012000'', Some ''PT ABC'', Some ''023456789217000'', Some ''PT XYZ'',
      Some ''0700002212345678'', Some ''01/04/2022'', Some ''15000000'', Some ''1650000'']"
  by (simp add: MOCK_RECORD_def FIELDS_def dict_get_def)

lemma scenario_text_nonempty: "SCENARIO_TEXT \<noteq> []"
  by (simp add: SCENARIO_TEXT_def join_lines_def)

text \<open>The claim at a PDF upload of the sample document.\<close>

theorem C2_witness:
  "\<exists>r. validate_efaktur (SAMPLE_ENV SCENARIO_TEXT) [] ''faktur.pdf'' = Inr r
       \<and> list_all (\<lambda>f. dict_get (extracted_data (results r)) f
                         = dict_get (validated_data (results r)) f) FIELDS
       \<and> status r = ''validated_successfully'' \<and> deviations (results r) = []"
proof -
  have "validate_efaktur (SAMPLE_ENV SCENARIO_TEXT) [] ''faktur.pdf''
          = reconcile (parse_pdf_fields SCENARIO_TEXT) None SCENARIO_TEXT"
    by (rule validate_sample) (rule scenario_text_nonempty)
  then obtain r where r: "validate_efaktur (SAMPLE_ENV SCENARIO_TEXT) [] ''faktur.pdf'' = Inr r"
    and p: "extracted_data (results r) = parse_pdf_fields SCENARIO_TEXT"
    by (simp add: reconcile_Inr)
  from validate_efaktur_result [OF r]
  have vd: "validated_data (results r) = MOCK_RECORD" by simp
  have "map (dict_get (extracted_data (results r))) FIELDS
          = map (dict_get (validated_data (results r))) FIELDS"
    by (simp only: p vd scenario_fields mock_record_fields)
  then have ag: "list_all (\<lambda>f. dict_get (extracted_data (results r)) f
                         = dict_get (validated_data (results r)) f) FIELDS"
    by (simp only: list_all_iff map_eq_conv)
  with C2_status_iff_no_deviations [of "SAMPLE_ENV SCENARIO_TEXT" "[]" "''faktur.pdf''" r] r
  show ?thesis by blast
qed

section \<open>The orchestrator: rejected requests\<close>

lemma str_endswith_last:
  assumes "str_endswith s suf" and "suf \<noteq> []"
  shows "last s = last suf"
proof -
  from assms(1) have "s = take (length s - length suf) s @ suf"
    by (metis append_take_drop_id str_endswith_def)
  then have "last s = last (take (length s - length suf) s @ suf)" by simp
  also have "\<dots> = last suf" using assms(2) by simp
  finally show ?thesis .
qed

lemma supported_iff:
  "str_endswith_any (str_lower fn) [''.pdf'', ''.jpg'', ''.jpeg'', ''.png'']
     = (is_pdf_file fn \<or> is_image_file fn)"
  by (auto simp: str_endswith_any_def is_pdf_file_def is_image_file_def)

lemma txt_unsupported:
  assumes "str_endswith (str_lower fn) ''.txt''"
  shows "\<not> is_pdf_file fn \<and> \<not> is_image_file fn"
proof -
  from str_endswith_last [OF assms] have "last (str_lower fn) = CHR ''t''" by simp
  then show ?thesis
    by (auto simp: is_pdf_file_def is_image_file_def str_endswith_any_def
             dest!: str_endswith_last)
qed

lemma validate_unsupported:
  "\<not> is_pdf_file fn \<Longrightarrow> \<not> is_image_file fn \<Longrightarrow>
     validate_efaktur env c fn = Inl (HTTPException 400 ''Only PDF and JPG/PNG files are supported'')"
  by (simp add: validate_efaktur_def)

text \<open>
  Claim C8.  A filename that does not end in \<open>.pdf\<close>, \<open>.jpg\<close>, \<open>.jpeg\<close> or \<open>.png\<close> (in any
  case of the letters) is rejected with an error whatever the collaborators and the file
  are, so no extraction takes part in the outcome; a PDF or an image whose extracted text
  is empty is rejected with an error.  An outcome is an error or a response, never both,
  and a response is in one of two states: \<open>validated_successfully\<close> with no deviations or
  \<open>validated_with_deviations\<close> with deviations.  A filename that ends in \<open>.txt\<close> is
  rejected in the first way.
\<close>

theorem C8_rejections:
  "(\<not> str_endswith_any (str_lower fn) [''.pdf'', ''.jpg'', ''.jpeg'', ''.png''] \<longrightarrow>
      (\<forall>env' c'. validate_efaktur env' c' fn
         = Inl (HTTPException 400 ''Only PDF and JPG/PNG files are supported'')))
   \<and> (is_pdf_file fn \<and> extract_text_from_pdf env c = Inr [] \<longrightarrow>
        validate_efaktur env c fn = Inl (HTTPException 400 ''No text found in PDF''))
   \<and> (\<not> is_pdf_file fn \<and> is_image_file fn \<and> extract_text_from_image env c = Inr [] \<longrightarrow>
        validate_efaktur env c fn = Inl (HTTPException 400 ''No text found in image''))
   \<and> (validate_efaktur env c fn = Inr r \<longrightarrow>
        (status r = ''validated_successfully'' \<and> deviations (results r) = [])
        \<or> (status r = ''validated_with_deviations'' \<and> deviations (results r) \<noteq> []))
   \<and> (str_endswith (str_lower fn) ''.txt'' \<longrightarrow>
        (\<forall>env' c'. validate_efaktur env' c' fn
           = Inl (HTTPException 400 ''Only PDF and JPG/PNG files are supported'')))"
proof (intro conjI impI allI)
  fix env' c'
  assume "\<not> str_endswith_any (str_lower fn) [''.pdf'', ''.jpg'', ''.jpeg'', ''.png'']"
  then show "validate_efaktur env' c' fn
         = Inl (HTTPException 400 ''Only PDF and JPG/PNG files are supported'')"
    by (simp add: supported_iff validate_unsupported)
next
  assume "is_pdf_file fn \<and> extract_text_from_pdf env c = Inr []"
  then show "validate_efaktur env c fn = Inl (HTTPException 400 ''No text found in PDF'')"
    by (simp add: validate_efaktur_def)
next
  assume "\<not> is_pdf_file fn \<and> is_image_file fn \<and> extract_text_from_image env c = Inr []"
  then show "validate_efaktur env c fn = Inl (HTTPException 400 ''No text found in image'')"
    by (simp add: validate_efaktur_def)
next
  assume "validate_efaktur env c fn = Inr r"
  from validate_efaktur_result [OF this]
  show "(status r = ''validated_successfully'' \<and> deviations (results r) = [])
        \<or> (status r = ''validated_with_deviations'' \<and> deviations (results r) \<noteq> [])"
    by auto
next
  fix env' c'
  assume "str_endswith (str_lower fn) ''.txt''"
  from txt_unsupported [OF this]
  show "validate_efaktur env' c' fn
           = Inl (HTTPException 400 ''Only PDF and JPG/PNG files are supported'')"
    by (simp add: validate_unsupported)
qed

text \<open>Collaborators that find no text in any upload.\<close>

definition EMPTY_ENV :: collaborators where
  "EMPTY_ENV =
     \<lparr>pdf_pages = (\<lambda>b. Some [None]), image_text = (\<lambda>b. Some []),
      qr_code_from_pdf = (\<lambda>b. None), qr_code_from_image = (\<lambda>b. None)\<rparr>"

lemma sample_names:
  "str_endswith (str_lower ''notes.txt'') ''.txt''
   \<and> \<not> str_endswith_any (str_lower ''notes.txt'') [''.pdf'', ''.jpg'', ''.jpeg'', ''.png'']
   \<and> is_pdf_file ''Faktur.PDF'' \<and> \<not> is_pdf_file ''scan.PNG'' \<and> is_image_file ''scan.PNG''"
  by code_simp

text \<open>The claim at a \<open>.txt\<close> upload, at a PDF and an image without text, and at a PDF whose
  text is \<open>NPWP\<close>.\<close>

theorem C8_witness:
  "validate_efaktur (SAMPLE_ENV SCENARIO_TEXT) [] ''notes.txt''
     = Inl (HTTPException 400 ''Only PDF and JPG/PNG files are supported'')
   \<and> validate_efaktur EMPTY_ENV [] ''Faktur.PDF'' = Inl (HTTPException 400 ''No text found in PDF'')
   \<and> validate_efaktur EMPTY_ENV [] ''scan.PNG'' = Inl (HTTPException 400 ''No text found in image'')
   \<and> (\<exists>r. validate_efaktur (SAMPLE_ENV ''NPWP'') [] ''faktur.pdf'' = Inr r
          \<and> status r = ''validated_with_deviations'' \<and> deviations (results r) \<noteq> [])"
proof -
  have e1: "extract_text_from_pdf EMPTY_ENV [] = Inr []"
    by (simp add: extract_text_from_pdf_def EMPTY_ENV_def)
  have e2: "extract_text_from_image EMPTY_ENV [] = Inr []"
    by (simp add: extract_text_from_image_def EMPTY_ENV_def)
  have "validate_efaktur (SAMPLE_ENV ''NPWP'') [] ''faktur.pdf'' = reconcile (parse_pdf_fields ''NPWP'') None ''NPWP''"
    by (rule validate_sample) simp
  then obtain r where r: "validate_efaktur (SAMPLE_ENV ''NPWP'') [] ''faktur.pdf'' = Inr r"
    and p: "extracted_data (results r) = parse_pdf_fields ''NPWP''"
    and d: "deviations (results r) = compare_fields (parse_pdf_fields ''NPWP'') MOCK_RECORD"
    by (simp add: reconcile_Inr)
  have "dict_get (parse_pdf_fields ''NPWP'') ''npwpPenjual'' = None"
    by code_simp
  then have "deviation_rule (parse_pdf_fields ''NPWP'') MOCK_RECORD ''npwpPenjual'' \<noteq> None"
    by (simp add: deviation_rule_def MOCK_RECORD_def dict_get_def)
  then have "compare_fields (parse_pdf_fields ''NPWP'') MOCK_RECORD \<noteq> []"
    by (auto simp: compare_fields_rule FIELDS_def List.map_filter_simps split: option.splits)
  with d have ne: "deviations (results r) \<noteq> []" by simp
  from C8_rejections [of "''notes.txt''" "SAMPLE_ENV SCENARIO_TEXT" "[]" r] sample_names
  have w1: "validate_efaktur (SAMPLE_ENV SCENARIO_TEXT) [] ''notes.txt''
     = Inl (HTTPException 400 ''Only PDF and JPG/PNG files are supported'')" by blast
  from C8_rejections [of "''Faktur.PDF''" EMPTY_ENV "[]" r] sample_names e1
  have w2: "validate_efaktur EMPTY_ENV [] ''Faktur.PDF'' = Inl (HTTPException 400 ''No text found in PDF'')"
    by blast
  from C8_rejections [of "''scan.PNG''" EMPTY_ENV "[]" r] sample_names e2
  have w3: "validate_efaktur EMPTY_ENV [] ''scan.PNG'' = Inl (HTTPException 400 ''No text found in image'')"
    by blast
  from C8_rejections [of "''faktur.pdf''" "SAMPLE_ENV ''NPWP''" "[]" r] r ne
  have w4: "status r = ''validated_with_deviations'' \<and> deviations (results r) \<noteq> []" by blast
  from w1 w2 w3 w4 r show ?thesis by blast
qed

section \<open>The field extractor: seller and buyer fields\<close>

text \<open>The two sections of the normalized text of a document.\<close>

definition seller_section :: "string \<Rightarrow> string" where
  "seller_section t = fst (split_sections (preprocess_ocr_text t))"

definition buyer_section :: "string \<Rightarrow> string" where
  "buyer_section t = snd (split_sections (preprocess_ocr_text t))"

text \<open>The value at index 1 of a list of matches, if there is one.\<close>

definition second_match :: "rmatch list \<Rightarrow> rmatch option" where
  "second_match ms = (case ms of m0 # m1 # rest \<Rightarrow> Some m1 | _ \<Rightarrow> None)"

text \<open>The loop over \<open>patterns\<close> assigns its own four keys only.\<close>

lemma scan_field_upd: "\<exists>v. scan_field text d fp = d(fst fp \<mapsto> v)"
  by (cases "re_search True (snd fp) text"; cases "re_search True PLACE_DATE_RE text")
     (auto simp: scan_field_def Let_def)

lemma scan_field_other:
  assumes "fst fp \<noteq> k"
  shows "scan_field text d fp k = d k"
proof -
  obtain v where "scan_field text d fp = d(fst fp \<mapsto> v)"
    using scan_field_upd by blast
  with assms show ?thesis by simp
qed

lemma foldl_scan_field_other:
  "k \<notin> fst ` set ps \<Longrightarrow> foldl (scan_field text) d ps k = d k"
  by (induction ps arbitrary: d) (auto simp: scan_field_other)

lemma party_keys_not_scanned:
  "''npwpPenjual'' \<notin> fst ` set patterns" "''namaPenjual'' \<notin> fst ` set patterns"
  "''npwpPembeli'' \<notin> fst ` set patterns" "''namaPembeli'' \<notin> fst ` set patterns"
  by (simp_all add: patterns_def)

lemma npwp_penjual_value:
  "dict_get (parse_pdf_fields t) ''npwpPenjual'' =
     (if seller_section t \<noteq> [] \<and> truthy (extract_npwp (seller_section t))
      then extract_npwp (seller_section t)
      else extract_npwp (preprocess_ocr_text t))"
  by (simp add: dict_get_def parse_pdf_fields_def Let_def foldl_scan_field_other
      party_keys_not_scanned seller_section_def truthy_def)

lemma nama_penjual_value:
  "dict_get (parse_pdf_fields t) ''namaPenjual'' =
     (if seller_section t \<noteq> [] \<and> truthy (extract_nama (seller_section t))
      then extract_nama (seller_section t)
      else extract_nama (preprocess_ocr_text t))"
  by (simp add: dict_get_def parse_pdf_fields_def Let_def foldl_scan_field_other
      party_keys_not_scanned seller_section_def truthy_def)

lemma second_match_nth:
  "second_match ms = (if length ms > 1 then Some (ms ! 1) else None)"
  by (cases ms; simp add: second_match_def split: list.split)

lemma npwp_pembeli_value:
  "dict_get (parse_pdf_fields t) ''npwpPembeli'' =
     (if buyer_section t \<noteq> [] \<and> truthy (extract_npwp (buyer_section t))
      then extract_npwp (buyer_section t)
      else map_option (\<lambda>m. re_sub False NON_DIGIT [] (group m 1))
             (second_match (re_finditer False NPWP_RE (preprocess_ocr_text t))))"
  by (simp add: dict_get_def parse_pdf_fields_def Let_def foldl_scan_field_other
      party_keys_not_scanned buyer_section_def truthy_def second_match_nth)

lemma nama_pembeli_value:
  "dict_get (parse_pdf_fields t) ''namaPembeli'' =
     (if buyer_section t \<noteq> [] \<and> truthy (extract_nama (buyer_section t))
      then extract_nama (buyer_section t)
      else map_option (\<lambda>m. str_strip (group m 1))
             (second_match (re_finditer False NAMA_RE (preprocess_ocr_text t))))"
  by (simp add: dict_get_def parse_pdf_fields_def Let_def foldl_scan_field_other
      party_keys_not_scanned buyer_section_def truthy_def second_match_nth)


text \<open>
  Claim C5, as amended.  The seller tax-ID is the match within the seller section when
  that section is not empty and the match there gives a non-empty value; in every other
  case (the section is empty, it holds no match, or the match has no digit) it is the
  match within the whole normalized text.  The same holds for the seller name.
\<close>

theorem C5_seller_fields:
  "dict_get (parse_pdf_fields t) ''npwpPenjual'' =
     (if seller_section t \<noteq> [] \<and> truthy (extract_npwp (seller_section t))
      then extract_npwp (seller_section t)
      else extract_npwp (preprocess_ocr_text t))
   \<and> dict_get (parse_pdf_fields t) ''namaPenjual'' =
     (if seller_section t \<noteq> [] \<and> truthy (extract_nama (seller_section t))
      then extract_nama (seller_section t)
      else extract_nama (preprocess_ocr_text t))"
  by (simp only: npwp_penjual_value nama_penjual_value)

text \<open>
  The claim as stated fails: in the text below the seller section is not empty and holds
  no \<open>NPWP\<close> match, and yet the seller tax-ID is present, taken from the text before the
  section.
\<close>

theorem C5_counterexample:
  "seller_section ''NPWP: 123 Pengusaha Kena Pajak'' = ''Pengusaha Kena Pajak''
   \<and> re_search False NPWP_RE (seller_section ''NPWP: 123 Pengusaha Kena Pajak'') = None
   \<and> dict_get (parse_pdf_fields ''NPWP: 123 Pengusaha Kena Pajak'') ''npwpPenjual'' = Some ''123''"
  by code_simp

text \<open>
  Claim C4.  When the buyer section yields no tax-ID (there is no buyer section, it holds
  no match, or the match has no digit), the buyer tax-ID is the second \<open>NPWP\<close> match of the
  whole normalized text with its non-digits deleted, and it is absent when the text has
  fewer than two matches.  Likewise the buyer name is the second \<open>Nama\<close> match, stripped.
\<close>

theorem C4_buyer_fallback:
  "(\<not> (buyer_section t \<noteq> [] \<and> truthy (extract_npwp (buyer_section t))) \<longrightarrow>
      dict_get (parse_pdf_fields t) ''npwpPembeli'' =
        (case re_finditer False NPWP_RE (preprocess_ocr_text t) of
           m0 # m1 # rest \<Rightarrow> Some (re_sub False NON_DIGIT [] (group m1 1))
         | _ \<Rightarrow> None))
   \<and> (\<not> (buyer_section t \<noteq> [] \<and> truthy (extract_nama (buyer_section t))) \<longrightarrow>
      dict_get (parse_pdf_fields t) ''namaPembeli'' =
        (case re_finditer False NAMA_RE (preprocess_ocr_text t) of
           m0 # m1 # rest \<Rightarrow> Some (str_strip (group m1 1))
         | _ \<Rightarrow> None))"
  by (simp add: npwp_pembeli_value nama_pembeli_value second_match_def split: list.split)

text \<open>Scenario A: a seller section with two tax-IDs and two names, and no buyer marker.\<close>

definition SCENARIO_A :: string where
  "SCENARIO_A = join_lines
     [''Pengusaha Kena Pajak'',
      ''Nama: PT ABC'',
      ''NPWP: 01.234.567.8-012.000'',
      ''Nama: PT XYZ'',
      ''NPWP: 02.345.678.9-217.000'']"

lemma scenario_a_eval:
  "buyer_section SCENARIO_A = []
   \<and> map (\<lambda>m. group m 1) (re_finditer False NPWP_RE (preprocess_ocr_text SCENARIO_A))
       = [''01.234.567.8-012.000'', ''02.345.678.9-217.000'']
   \<and> dict_get (parse_pdf_fields SCENARIO_A) ''npwpPembeli'' = Some ''023456789217000''
   \<and> dict_get (parse_pdf_fields SCENARIO_A) ''namaPembeli'' = Some ''PT XYZ''
   \<and> buyer_section ''NPWP: 123'' = []
   \<and> length (re_finditer False NPWP_RE (preprocess_ocr_text ''NPWP: 123'')) = 1
   \<and> dict_get (parse_pdf_fields ''NPWP: 123'') ''npwpPembeli'' = None
   \<and> dict_get (parse_pdf_fields ''NPWP: 123'') ''namaPembeli'' = None"
  by code_simp

text \<open>The claim at scenario A, and at a text with a single \<open>NPWP\<close> match.\<close>

theorem C4_witness:
  "\<not> (buyer_section SCENARIO_A \<noteq> [] \<and> truthy (extract_npwp (buyer_section SCENARIO_A)))
   \<and> \<not> (buyer_section SCENARIO_A \<noteq> [] \<and> truthy (extract_nama (buyer_section SCENARIO_A)))
   \<and> (case re_finditer False NPWP_RE (preprocess_ocr_text SCENARIO_A) of
           m0 # m1 # rest \<Rightarrow> Some (re_sub False NON_DIGIT [] (group m1 1))
         | _ \<Rightarrow> None) = Some ''023456789217000''
   \<and> (case re_finditer False NAMA_RE (preprocess_ocr_text SCENARIO_A) of
           m0 # m1 # rest \<Rightarrow> Some (str_strip (group m1 1))
         | _ \<Rightarrow> None) = Some ''PT XYZ''
   \<and> \<not> (buyer_section ''NPWP: 123'' \<noteq> [] \<and> truthy (extract_npwp (buyer_section ''NPWP: 123'')))
   \<and> dict_get (parse_pdf_fields ''NPWP: 123'') ''npwpPembeli'' = None"
  using C4_buyer_fallback [of SCENARIO_A] C4_buyer_fallback [of "''NPWP: 123''"] scenario_a_eval
  by simp

text \<open>
  Claim C6.  The primary date pattern has no separator between the label and the date,
  so the text \<open>Tanggal Faktur 01/04/2022\<close> of the claim gives no invoice date: the pattern
  matches only when the date follows the label at once, or follows a comma.  The fallback
  behaves as the claim says.
\<close>

theorem C6_tanggal_faktur_label:
  "dict_get (parse_pdf_fields ''Tanggal Faktur 01/04/2022'') ''tanggalFaktur'' = None
   \<and> re_search True TANGGAL_RE (preprocess_ocr_text ''Tanggal Faktur 01/04/2022'') = None
   \<and> dict_get (parse_pdf_fields ''Tanggal Faktur01/04/2022'') ''tanggalFaktur'' = Some ''01/04/2022''
   \<and> dict_get (parse_pdf_fields ''Jakarta, 01/04/2022'') ''tanggalFaktur'' = Some ''01/04/2022''
   \<and> dict_get (parse_pdf_fields ''Jakarta, 1 APRIL 2022'') ''tanggalFaktur'' = Some ''01/04/2022''
   \<and> dict_get (parse_pdf_fields ''Jakarta, 1 APRIX 2022'') ''tanggalFaktur'' = None"
  by code_simp

end
